theory Spec2Isabelle
  imports Main
begin

section \<open>Data model of the cart provider (frontend/src/App.js)\<close>

text \<open>
  The client keeps one cart object \<open>{ items: [...], total: n }\<close> in React state.
  Prices, quantities and totals are JavaScript numbers. The number type is left
  abstract here (a type variable \<open>'n\<close> with \<open>0\<close>, \<open>+\<close>, \<open>*\<close> and \<open>\<le>\<close>), so that no result
  relies on a law of exact arithmetic unless its statement asks for it through the sort
  of \<open>'n\<close>.

  A line of the cart is the object literal pushed by \<open>addToCart\<close>. The field \<open>total\<close> of
  the cart is written \<open>total_c\<close> and the field \<open>id\<close> of a product \<open>id_p\<close>, because
  \<open>total\<close> and \<open>id\<close> are constants of HOL.
\<close>

record 'n item =
  product_id :: string
  name :: string
  price :: 'n
  image_url :: string
  quantity :: 'n

record 'n cart =
  items :: "'n item list"
  total_c :: 'n

text \<open>The fields of a catalogue product that \<open>addToCart\<close> reads.\<close>

record 'n product =
  id_p :: string
  name_p :: string
  price_p :: 'n
  image_url_p :: string

text \<open>The initial React state \<open>useState({ items: [], total: 0 })\<close>.\<close>

definition empty_cart :: "'n::zero cart" where
  "empty_cart = \<lparr>items = [], total_c = 0\<rparr>"

section \<open>The client-side cart engine (the guest branches)\<close>

text \<open>
  \<open>newCart.items.reduce((sum, item) => sum + (item.price * item.quantity), 0)\<close>:
  a left fold over the lines in array order, starting from \<open>0\<close>.
\<close>

definition reduce_total :: "'n::{zero,plus,times} item list \<Rightarrow> 'n" where
  "reduce_total xs = foldl (\<lambda>sum item. sum + price item * quantity item) 0 xs"

text \<open>
  \<open>Array.prototype.find\<close> returns a reference to the first element that satisfies the
  predicate, and the code assigns to a field of that object. The array itself is shared
  between \<open>cart\<close> and the shallow copy \<open>{ ...cart }\<close>, so the assignment changes the line
  in place, at the position where it was found. \<open>assign_found P f xs\<close> is the array
  after such an assignment: \<open>f\<close> applied to the first element satisfying \<open>P\<close>, every
  other element untouched. The line objects of a cart are created one by one (by
  \<open>push\<close> of a fresh literal or by \<open>JSON.parse\<close>), so no object occurs at two positions.
\<close>

fun assign_found :: "('a \<Rightarrow> bool) \<Rightarrow> ('a \<Rightarrow> 'a) \<Rightarrow> 'a list \<Rightarrow> 'a list" where
  "assign_found P f [] = []"
| "assign_found P f (x # xs) = (if P x then f x # xs else x # assign_found P f xs)"

text \<open>
  The else-branch of \<open>addToCart(product, quantity = 1)\<close>, lines 150 to 166: the cart
  handed to \<open>setCart\<close> and \<open>saveGuestCart\<close>.
\<close>

definition addToCart_guest ::
  "'n::{zero,plus,times} cart \<Rightarrow> 'n product \<Rightarrow> 'n \<Rightarrow> 'n cart" where
  "addToCart_guest cart product qty =
     (let newItems =
        (case find (\<lambda>item. product_id item = id_p product) (items cart) of
           Some existingItem \<Rightarrow>
             assign_found (\<lambda>item. product_id item = id_p product)
               (\<lambda>item. item\<lparr>quantity := quantity item + qty\<rparr>) (items cart)
         | None \<Rightarrow>
             items cart @
               [\<lparr>product_id = id_p product, name = name_p product, price = price_p product,
                 image_url = image_url_p product, quantity = qty\<rparr>])
      in cart\<lparr>items := newItems, total_c := reduce_total newItems\<rparr>)"

text \<open>The else-branch of \<open>updateQuantity(productId, quantity)\<close>, lines 186 to 196.\<close>

definition updateQuantity_guest ::
  "'n::{zero,plus,times,ord} cart \<Rightarrow> string \<Rightarrow> 'n \<Rightarrow> 'n cart" where
  "updateQuantity_guest cart productId qty =
     (let newItems =
        (if qty \<le> 0 then filter (\<lambda>item. product_id item \<noteq> productId) (items cart)
         else
           (case find (\<lambda>item. product_id item = productId) (items cart) of
              Some item \<Rightarrow>
                assign_found (\<lambda>item. product_id item = productId)
                  (\<lambda>item. item\<lparr>quantity := qty\<rparr>) (items cart)
            | None \<Rightarrow> items cart))
      in cart\<lparr>items := newItems, total_c := reduce_total newItems\<rparr>)"

text \<open>The else-branch of \<open>removeFromCart(productId)\<close>, lines 217 to 219.\<close>

definition removeFromCart_guest ::
  "'n::{zero,plus,times} cart \<Rightarrow> string \<Rightarrow> 'n cart" where
  "removeFromCart_guest cart productId =
     (let newItems = filter (\<lambda>item. product_id item \<noteq> productId) (items cart)
      in cart\<lparr>items := newItems, total_c := reduce_total newItems\<rparr>)"

text \<open>
  The total as the specification words it, written apart from the code: the sum over
  the lines of unit price times quantity, taken in line order. No line gives zero; for
  the lines up to and including a last line it is the sum for the lines before it plus
  the price of the last line times its quantity. \<open>spec_total_back\<close> takes the lines with
  the last line first. The code's fold is compared with it below.
\<close>

primrec spec_total_back :: "'n::{zero,plus,times} item list \<Rightarrow> 'n" where
  "spec_total_back [] = 0"
| "spec_total_back (line # before) = spec_total_back before + price line * quantity line"

definition spec_total :: "'n::{zero,plus,times} item list \<Rightarrow> 'n" where
  "spec_total xs = spec_total_back (rev xs)"

text \<open>
  A cart mutation as the pages issue it, and the cart reached from the empty cart by a
  sequence of mutations, each acting on the cart the previous one left.
\<close>

datatype 'n mutation =
    AddToCart "'n product" 'n
  | UpdateQuantity string 'n
  | RemoveFromCart string

fun mutate :: "'n::{zero,plus,times,ord} cart \<Rightarrow> 'n mutation \<Rightarrow> 'n cart" where
  "mutate cart (AddToCart product qty) = addToCart_guest cart product qty"
| "mutate cart (UpdateQuantity productId qty) = updateQuantity_guest cart productId qty"
| "mutate cart (RemoveFromCart productId) = removeFromCart_guest cart productId"

definition reached :: "'n::{zero,plus,times,ord} mutation list \<Rightarrow> 'n cart" where
  "reached ms = foldl mutate empty_cart ms"

section \<open>The session: authentication, cart state, local storage, server\<close>

text \<open>
  An \<open>axios\<close> request either resolves with \<open>response.data\<close> or rejects (a network
  failure, or a status outside 2xx, given here as the status code). The server itself
  is not part of the client: it enters every operation as a parameter \<open>srv\<close>, one
  function per endpoint from what the request carries (the bearer token and the query
  parameters) to the outcome of the request at the moment it is sent.
\<close>

datatype error = RequestFailed nat

text \<open>
  The values found in an order confirmation, and an object as the list of its fields:
  the guest order is an object literal, the authenticated one whatever the server sent.
\<close>

datatype 'n jsval = JString string | JNumber 'n | JItems "'n item list"

type_synonym 'n jsobj = "(string \<times> 'n jsval) list"

record 'n server =
  post_auth_login :: "string \<Rightarrow> string \<Rightarrow> error + string"
  post_auth_register :: "string \<Rightarrow> string \<Rightarrow> string \<Rightarrow> error + string"
  get_auth_me :: "string \<Rightarrow> error + string"
  get_cart :: "string \<Rightarrow> error + 'n cart"
  post_cart_add :: "string \<Rightarrow> string \<Rightarrow> 'n \<Rightarrow> error + 'n cart"
  put_cart_update :: "string \<Rightarrow> string \<Rightarrow> 'n \<Rightarrow> error + 'n cart"
  delete_cart_remove :: "string \<Rightarrow> string \<Rightarrow> error + 'n cart"
  post_cart_checkout :: "string \<Rightarrow> error + 'n jsobj"

text \<open>
  The state the two providers hold: \<open>user\<close> and \<open>token\<close> of \<open>AuthProvider\<close>, \<open>cart\<close> of
  \<open>CartProvider\<close>, and the two entries of \<open>localStorage\<close>, \<open>'token'\<close> and \<open>'guestCart'\<close>
  (\<open>None\<close> when the key is absent). The guest cart is stored as \<open>JSON.stringify\<close> of the
  cart and read back with \<open>JSON.parse\<close>; the stored value is modelled as the cart itself.
  The flags \<open>loading\<close> and \<open>cartLoading\<close> only drive the display and are left out.
\<close>

record 'n session =
  user :: "string option"
  token :: "string option"
  cart :: "'n cart"
  stored_token :: "string option"
  guestCart :: "'n cart option"

text \<open>
  The test \<open>user && token\<close>: \<open>user\<close> is an object or \<open>null\<close>, \<open>token\<close> a string or \<open>null\<close>,
  and the empty string is falsy.
\<close>

definition authenticated :: "'n session \<Rightarrow> bool" where
  "authenticated s =
     (case user s of
        None \<Rightarrow> False
      | Some u \<Rightarrow> (case token s of None \<Rightarrow> False | Some t \<Rightarrow> t \<noteq> []))"

text \<open>The header value \<open>`Bearer ${token}`\<close> without its prefix; \<open>null\<close> prints as \<open>null\<close>.\<close>

definition bearer :: "'n session \<Rightarrow> string" where
  "bearer s = (case token s of None \<Rightarrow> ''null'' | Some t \<Rightarrow> t)"

subsection \<open>AuthProvider\<close>

definition login :: "'n server \<Rightarrow> string \<Rightarrow> string \<Rightarrow> 'n session \<Rightarrow> bool \<times> 'n session" where
  "login srv email password s =
     (case post_auth_login srv email password of
        Inl error \<Rightarrow> (False, s)
      | Inr access_token \<Rightarrow>
          (let s1 = s\<lparr>token := Some access_token, stored_token := Some access_token\<rparr>
           in case get_auth_me srv access_token of
                Inl error \<Rightarrow> (False, s1)
              | Inr data \<Rightarrow> (True, s1\<lparr>user := Some data\<rparr>)))"

definition register ::
  "'n server \<Rightarrow> string \<Rightarrow> string \<Rightarrow> string \<Rightarrow> 'n session \<Rightarrow> bool \<times> 'n session" where
  "register srv email password name' s =
     (case post_auth_register srv email password name' of
        Inl error \<Rightarrow> (False, s)
      | Inr access_token \<Rightarrow>
          (let s1 = s\<lparr>token := Some access_token, stored_token := Some access_token\<rparr>
           in case get_auth_me srv access_token of
                Inl error \<Rightarrow> (False, s1)
              | Inr data \<Rightarrow> (True, s1\<lparr>user := Some data\<rparr>)))"

definition logout :: "'n session \<Rightarrow> 'n session" where
  "logout s = s\<lparr>user := None, token := None, stored_token := None\<rparr>"

subsection \<open>CartProvider\<close>

definition loadCart :: "'n server \<Rightarrow> 'n session \<Rightarrow> 'n session" where
  "loadCart srv s =
     (if authenticated s then
        (case get_cart srv (bearer s) of
           Inr data \<Rightarrow> s\<lparr>cart := data\<rparr>
         | Inl error \<Rightarrow> s)
      else
        (case guestCart s of
           Some savedCart \<Rightarrow> s\<lparr>cart := savedCart\<rparr>
         | None \<Rightarrow> s))"

definition saveGuestCart :: "'n cart \<Rightarrow> 'n session \<Rightarrow> 'n session" where
  "saveGuestCart cartData s = s\<lparr>guestCart := Some cartData\<rparr>"

definition addToCart ::
  "'n::{zero,plus,times} server \<Rightarrow> 'n session \<Rightarrow> 'n product \<Rightarrow> 'n \<Rightarrow> 'n session" where
  "addToCart srv s product qty =
     (if authenticated s then
        (case post_cart_add srv (bearer s) (id_p product) qty of
           Inr data \<Rightarrow> s\<lparr>cart := data\<rparr>
         | Inl error \<Rightarrow> s)
      else
        (let newCart = addToCart_guest (cart s) product qty
         in saveGuestCart newCart (s\<lparr>cart := newCart\<rparr>)))"

definition updateQuantity ::
  "'n::{zero,plus,times,ord} server \<Rightarrow> 'n session \<Rightarrow> string \<Rightarrow> 'n \<Rightarrow> 'n session" where
  "updateQuantity srv s productId qty =
     (if authenticated s then
        (case put_cart_update srv (bearer s) productId qty of
           Inr data \<Rightarrow> s\<lparr>cart := data\<rparr>
         | Inl error \<Rightarrow> s)
      else
        (let newCart = updateQuantity_guest (cart s) productId qty
         in saveGuestCart newCart (s\<lparr>cart := newCart\<rparr>)))"

definition removeFromCart ::
  "'n::{zero,plus,times} server \<Rightarrow> 'n session \<Rightarrow> string \<Rightarrow> 'n session" where
  "removeFromCart srv s productId =
     (if authenticated s then
        (case delete_cart_remove srv (bearer s) productId of
           Inr data \<Rightarrow> s\<lparr>cart := data\<rparr>
         | Inl error \<Rightarrow> s)
      else
        (let newCart = removeFromCart_guest (cart s) productId
         in saveGuestCart newCart (s\<lparr>cart := newCart\<rparr>)))"

text \<open>
  \<open>'guest-' + Date.now()\<close>: the clock reading, a count of milliseconds, is a parameter
  and is printed in decimal.
\<close>

fun digits :: "nat \<Rightarrow> string" where
  "digits n =
     (if n < 10 then [''0123456789'' ! n]
      else digits (n div 10) @ [''0123456789'' ! (n mod 10)])"

declare digits.simps [simp del]

text \<open>
  \<open>checkout()\<close> returns the order confirmation or throws; the result is paired with
  the state it leaves.
\<close>

definition checkout ::
  "'n::zero server \<Rightarrow> nat \<Rightarrow> 'n session \<Rightarrow> (error + 'n jsobj) \<times> 'n session" where
  "checkout srv now s =
     (if authenticated s then
        (case post_cart_checkout srv (bearer s) of
           Inr data \<Rightarrow> (Inr data, s\<lparr>cart := \<lparr>items = [], total_c = 0\<rparr>\<rparr>)
         | Inl error \<Rightarrow> (Inl error, s))
      else
        (let orderData =
           [(''order_id'', JString (''guest-'' @ digits now)),
            (''total'', JNumber (total_c (cart s))),
            (''message'', JString ''Order placed successfully! (Guest checkout)'')]
         in (Inr orderData,
             s\<lparr>cart := \<lparr>items = [], total_c = 0\<rparr>, guestCart := None\<rparr>)))"

text \<open>
  \<open>useEffect(() => { loadCart(); }, [user, token])\<close>: after a render in which \<open>user\<close>
  or \<open>token\<close> differs from the previous render, the cart is loaded again. \<open>login\<close> and
  \<open>register\<close> are taken as one step each; a render that falls between their two
  requests, with the token set and no user yet, runs \<open>loadCart\<close> in guest mode, which
  writes nothing but \<open>cart\<close>.
\<close>

definition CartProvider_effect :: "'n server \<Rightarrow> 'n session \<Rightarrow> 'n session \<Rightarrow> 'n session" where
  "CartProvider_effect srv previous s =
     (if user s = user previous \<and> token s = token previous then s else loadCart srv s)"

subsection \<open>CartPage\<close>

text \<open>
  \<open>handleCheckout\<close> stores the result of \<open>checkout()\<close> in \<open>orderComplete\<close> and swallows a
  failure. The page renders the checkout button only in the branch where
  \<open>cart.items.length === 0\<close> is false; \<open>CartPage_checkout_click\<close> is \<open>None\<close> when there
  is no button to click.
\<close>

definition handleCheckout ::
  "'n::zero server \<Rightarrow> nat \<Rightarrow> 'n session \<Rightarrow> 'n jsobj option \<times> 'n session" where
  "handleCheckout srv now s =
     (case checkout srv now s of
        (Inr result, s') \<Rightarrow> (Some result, s')
      | (Inl error, s') \<Rightarrow> (None, s'))"

definition CartPage_checkout_click ::
  "'n::zero server \<Rightarrow> nat \<Rightarrow> 'n session \<Rightarrow> ('n jsobj option \<times> 'n session) option" where
  "CartPage_checkout_click srv now s =
     (if length (items (cart s)) = 0 then None else Some (handleCheckout srv now s))"

text \<open>Reading a field of an order confirmation: \<open>order.total\<close> and \<open>order.items\<close>.\<close>

definition order_total :: "'n jsobj \<Rightarrow> 'n option" where
  "order_total order = (case map_of order ''total'' of Some (JNumber t) \<Rightarrow> Some t | _ \<Rightarrow> None)"

definition order_items :: "'n jsobj \<Rightarrow> 'n item list option" where
  "order_items order = (case map_of order ''items'' of Some (JItems xs) \<Rightarrow> Some xs | _ \<Rightarrow> None)"

subsection \<open>A run of mutations on the session\<close>

text \<open>
  The three mutations as the context value of \<open>CartProvider\<close> exposes them. A run is
  \<open>foldl (perform srv) s ms\<close> from whatever state \<open>s\<close> the session is in when the first
  mutation is issued, so after the effects that follow the first render.
\<close>

fun perform ::
  "'n::{zero,plus,times,ord} server \<Rightarrow> 'n session \<Rightarrow> 'n mutation \<Rightarrow> 'n session" where
  "perform srv s (AddToCart product qty) = addToCart srv s product qty"
| "perform srv s (UpdateQuantity productId qty) = updateQuantity srv s productId qty"
| "perform srv s (RemoveFromCart productId) = removeFromCart srv s productId"

section \<open>Concrete carts, sessions and servers\<close>

text \<open>
  Two products of the catalogue with their cart lines, at the number type \<open>int\<close>, and
  the sessions and servers at which the general results are instantiated.
\<close>

definition product_A :: "int product" where
  "product_A = \<lparr>id_p = ''A'', name_p = ''Bamboo Cutting Board'', price_p = 25,
     image_url_p = ''a.png''\<rparr>"

definition product_B :: "int product" where
  "product_B = \<lparr>id_p = ''B'', name_p = ''Ceramic Coffee Mug Set'', price_p = 35,
     image_url_p = ''b.png''\<rparr>"

definition line_A :: "int \<Rightarrow> int item" where
  "line_A q = \<lparr>product_id = ''A'', name = ''Bamboo Cutting Board'', price = 25,
     image_url = ''a.png'', quantity = q\<rparr>"

definition line_B :: "int \<Rightarrow> int item" where
  "line_B q = \<lparr>product_id = ''B'', name = ''Ceramic Coffee Mug Set'', price = 35,
     image_url = ''b.png'', quantity = q\<rparr>"

text \<open>A server that cannot be reached: every request rejects.\<close>

definition offline :: "int server" where
  "offline =
     \<lparr>post_auth_login = (\<lambda>email password. Inl (RequestFailed 0)),
      post_auth_register = (\<lambda>email password name'. Inl (RequestFailed 0)),
      get_auth_me = (\<lambda>t. Inl (RequestFailed 0)),
      get_cart = (\<lambda>t. Inl (RequestFailed 0)),
      post_cart_add = (\<lambda>t pid q. Inl (RequestFailed 0)),
      put_cart_update = (\<lambda>t pid q. Inl (RequestFailed 0)),
      delete_cart_remove = (\<lambda>t pid. Inl (RequestFailed 0)),
      post_cart_checkout = (\<lambda>t. Inl (RequestFailed 0))\<rparr>"

text \<open>
  A server that accepts the credentials, issues the token \<open>jwt\<close>, holds the cart \<open>held\<close>
  for that account and answers a checkout with \<open>confirmation\<close>.
\<close>

definition shop :: "int cart \<Rightarrow> error + int jsobj \<Rightarrow> int server" where
  "shop held confirmation =
     \<lparr>post_auth_login = (\<lambda>email password. Inr ''jwt''),
      post_auth_register = (\<lambda>email password name'. Inr ''jwt''),
      get_auth_me = (\<lambda>t. if t = ''jwt'' then Inr ''sarah'' else Inl (RequestFailed 401)),
      get_cart = (\<lambda>t. if t = ''jwt'' then Inr held else Inl (RequestFailed 401)),
      post_cart_add = (\<lambda>t pid q. Inl (RequestFailed 401)),
      put_cart_update = (\<lambda>t pid q. Inl (RequestFailed 401)),
      delete_cart_remove = (\<lambda>t pid. Inl (RequestFailed 401)),
      post_cart_checkout =
        (\<lambda>t. if t = ''jwt'' then confirmation else Inl (RequestFailed 401))\<rparr>"

text \<open>
  A first-time visitor, with nothing in the local store; the same visitor after adding
  two of product A; a signed-in member whose server cart holds one of product B while
  the browser still stores the guest cart saved before sign-in; and a guest whose
  cart was read from a \<open>guestCart\<close> entry of the local store that holds two of A with
  the total 7.
\<close>

definition visitor :: "int session" where
  "visitor =
     \<lparr>user = None, token = None, cart = empty_cart, stored_token = None, guestCart = None\<rparr>"

definition guest_with_A :: "int session" where
  "guest_with_A = addToCart offline visitor product_A 2"

definition member_with_B :: "int session" where
  "member_with_B =
     CartProvider_effect (shop \<lparr>items = [line_B 1], total_c = 35\<rparr> (Inl (RequestFailed 400)))
       guest_with_A
       (snd (login (shop \<lparr>items = [line_B 1], total_c = 35\<rparr> (Inl (RequestFailed 400)))
          ''sarah@example.com'' ''secret'' guest_with_A))"

definition guest_stale_total :: "int session" where
  "guest_stale_total =
     loadCart offline (visitor\<lparr>guestCart := Some \<lparr>items = [line_A 2], total_c = 7\<rparr>\<rparr>)"

definition confirmation_B :: "int jsobj" where
  "confirmation_B =
     [(''order_id'', JString ''c8b3dc41''), (''total'', JNumber 35),
      (''message'', JString ''Order placed successfully!'')]"

section \<open>Auxiliary facts\<close>

subsection \<open>Assignment through the reference returned by find\<close>

lemma assign_found_ids:
  "(\<And>x. product_id (f x) = product_id x) \<Longrightarrow>
   map product_id (assign_found P f xs) = map product_id xs"
  by (induction xs) auto

lemma find_assign_found:
  "find P xs = Some x \<Longrightarrow> P (f x) \<Longrightarrow> find P (assign_found P f xs) = Some (f x)"
  by (induction xs) (auto split: if_splits)

lemma find_assign_found_present:
  "(\<And>x. P x \<Longrightarrow> P (f x)) \<Longrightarrow> find P xs = Some x \<Longrightarrow>
   \<exists>y. find P (assign_found P f xs) = Some y"
  by (induction xs) (auto split: if_splits)

lemma filter_assign_found:
  "(\<And>x. P x \<Longrightarrow> P (f x)) \<Longrightarrow>
   filter (\<lambda>x. \<not> P x) (assign_found P f xs) = filter (\<lambda>x. \<not> P x) xs"
  by (induction xs) auto

lemma length_assign_found: "length (assign_found P f xs) = length xs"
  by (induction xs) auto

lemma assign_found_twice:
  "(\<And>x. P x \<Longrightarrow> P (f x)) \<Longrightarrow>
   assign_found P g (assign_found P f xs) = assign_found P (\<lambda>x. g (f x)) xs"
  by (induction xs) auto

lemma find_append_absent: "find P xs = None \<Longrightarrow> find P (xs @ ys) = find P ys"
  by (induction xs) (auto split: if_splits)

lemma assign_found_append_absent:
  "find P xs = None \<Longrightarrow> assign_found P f (xs @ ys) = xs @ assign_found P f ys"
  by (induction xs) (auto split: if_splits)

lemma list_all_assign_found:
  "list_all Q xs \<Longrightarrow> (\<And>x. Q x \<Longrightarrow> Q (f x)) \<Longrightarrow> list_all Q (assign_found P f xs)"
  by (induction xs) auto

lemma find_absent_ids:
  "find (\<lambda>item. product_id item = pid) xs = None \<longleftrightarrow> pid \<notin> set (map product_id xs)"
  by (induction xs) auto

lemma filter_absent:
  "find (\<lambda>item. product_id item = pid) xs = None \<Longrightarrow>
   filter (\<lambda>item. product_id item \<noteq> pid) xs = xs"
  by (induction xs) (auto split: if_splits)

lemma filter_assign_found_distinct:
  "distinct (map product_id xs) \<Longrightarrow>
   find (\<lambda>item. product_id item = pid) xs = Some x \<Longrightarrow> product_id (f x) = pid \<Longrightarrow>
   filter (\<lambda>item. product_id item = pid)
     (assign_found (\<lambda>item. product_id item = pid) f xs) = [f x]"
proof (induction xs)
  case Nil
  then show ?case by simp
next
  case (Cons a xs)
  show ?case
  proof (cases "product_id a = pid")
    case True
    with Cons.prems have "a = x" and "pid \<notin> set (map product_id xs)" by auto
    then have "filter (\<lambda>item. product_id item = pid) xs = []"
      by (auto simp: filter_empty_conv)
    with True \<open>a = x\<close> Cons.prems(3) show ?thesis by simp
  next
    case False
    with Cons show ?thesis by simp
  qed
qed

subsection \<open>The engine and the session\<close>

lemma cart_eqI: "items a = items b \<Longrightarrow> total_c a = total_c b \<Longrightarrow> (a::'n cart) = b"
  by simp

lemma reduce_total_line_order: "reduce_total xs = spec_total xs"
  by (induction xs rule: rev_induct) (simp_all add: reduce_total_def spec_total_def)

text \<open>Where addition is associative with unit zero, the sum in line order is the sum.\<close>

lemma spec_total_exact:
  fixes xs :: "'n::{monoid_add,times} item list"
  shows "spec_total xs = sum_list (map (\<lambda>item. price item * quantity item) xs)"
  by (induction xs rule: rev_induct) (simp_all add: spec_total_def)

lemma total_after_add:
  "total_c (addToCart_guest c p q) = reduce_total (items (addToCart_guest c p q))"
  by (simp add: addToCart_guest_def Let_def)

lemma mutate_forgets_total: "mutate (c\<lparr>total_c := t\<rparr>) m = mutate c m"
  by (cases m)
    (simp_all add: addToCart_guest_def updateQuantity_guest_def removeFromCart_guest_def
      Let_def split: option.splits)

lemma total_after_mutate: "total_c (mutate c m) = reduce_total (items (mutate c m))"
  by (cases m)
    (simp_all add: addToCart_guest_def updateQuantity_guest_def removeFromCart_guest_def Let_def)

lemma reached_snoc: "reached (ms @ [m]) = mutate (reached ms) m"
  by (simp add: reached_def)

text \<open>
  In a session without a signed-in user the provider's functions run the engine on the
  cart and store the result under \<open>'guestCart'\<close>; in a signed-in session they store the
  cart the server returns and change nothing when the request is rejected.
\<close>

lemma authenticated_cart_update [simp]:
  "authenticated (s\<lparr>cart := c\<rparr>) = authenticated s"
  "authenticated (s\<lparr>guestCart := g\<rparr>) = authenticated s"
  by (simp_all add: authenticated_def split: option.splits)

lemma addToCart_anonymous:
  "\<not> authenticated s \<Longrightarrow>
   addToCart srv s p q =
     s\<lparr>cart := addToCart_guest (cart s) p q, guestCart := Some (addToCart_guest (cart s) p q)\<rparr>"
  by (simp add: addToCart_def saveGuestCart_def Let_def)

lemma updateQuantity_anonymous:
  "\<not> authenticated s \<Longrightarrow>
   updateQuantity srv s pid q =
     s\<lparr>cart := updateQuantity_guest (cart s) pid q,
       guestCart := Some (updateQuantity_guest (cart s) pid q)\<rparr>"
  by (simp add: updateQuantity_def saveGuestCart_def Let_def)

lemma removeFromCart_anonymous:
  "\<not> authenticated s \<Longrightarrow>
   removeFromCart srv s pid =
     s\<lparr>cart := removeFromCart_guest (cart s) pid,
       guestCart := Some (removeFromCart_guest (cart s) pid)\<rparr>"
  by (simp add: removeFromCart_def saveGuestCart_def Let_def)

lemma perform_anonymous:
  "\<not> authenticated s \<Longrightarrow>
   perform srv s m = s\<lparr>cart := mutate (cart s) m, guestCart := Some (mutate (cart s) m)\<rparr>"
  by (cases m) (simp_all add: addToCart_anonymous updateQuantity_anonymous removeFromCart_anonymous)

lemma run_anonymous:
  "\<not> authenticated s \<Longrightarrow> cart (foldl (perform srv) s ms) = foldl mutate (cart s) ms"
  by (induction ms arbitrary: s) (simp_all add: perform_anonymous)

lemma distinct_mutate:
  "distinct (map product_id (items c)) \<Longrightarrow> distinct (map product_id (items (mutate c m)))"
proof (cases m)
  case (AddToCart p q)
  then show "distinct (map product_id (items c)) \<Longrightarrow> ?thesis"
    by (auto simp: addToCart_guest_def Let_def assign_found_ids find_absent_ids
        split: option.splits)
next
  case (UpdateQuantity pid q)
  then show "distinct (map product_id (items c)) \<Longrightarrow> ?thesis"
    by (auto simp: updateQuantity_guest_def Let_def assign_found_ids distinct_map_filter
        split: option.splits)
next
  case (RemoveFromCart pid)
  then show "distinct (map product_id (items c)) \<Longrightarrow> ?thesis"
    by (auto simp: removeFromCart_guest_def Let_def distinct_map_filter)
qed

lemma distinct_foldl_mutate:
  "distinct (map product_id (items c)) \<Longrightarrow>
   distinct (map product_id (items (foldl mutate c ms)))"
  by (induction ms arbitrary: c) (simp_all add: distinct_mutate)

lemma assign_found_same_on_found:
  "find P xs = Some x \<Longrightarrow> f x = g x \<Longrightarrow> assign_found P f xs = assign_found P g xs"
  by (induction xs) (auto split: if_splits)

lemma add_twice_present:
  fixes c :: "'n::{zero,plus,times} cart"
  assumes "find (\<lambda>item. product_id item = id_p p) (items c) = Some line"
  shows "items (addToCart_guest (addToCart_guest c p q1) p q2) =
     assign_found (\<lambda>item. product_id item = id_p p)
       (\<lambda>item. item\<lparr>quantity := quantity item + q1 + q2\<rparr>) (items c)"
proof -
  let ?P = "\<lambda>item::'n item. product_id item = id_p p"
  let ?f = "\<lambda>item::'n item. item\<lparr>quantity := quantity item + q1\<rparr>"
  have keep: "\<And>x. ?P x \<Longrightarrow> ?P (?f x)" by simp
  have first: "items (addToCart_guest c p q1) = assign_found ?P ?f (items c)"
    using assms by (simp add: addToCart_guest_def Let_def)
  obtain y where "find ?P (assign_found ?P ?f (items c)) = Some y"
    using find_assign_found_present [of ?P ?f, OF keep assms] by blast
  then have "items (addToCart_guest (addToCart_guest c p q1) p q2) =
      assign_found ?P (\<lambda>item. item\<lparr>quantity := quantity item + q2\<rparr>)
        (assign_found ?P ?f (items c))"
    by (simp add: addToCart_guest_def [of "addToCart_guest c p q1"] first Let_def)
  also have "\<dots> =
      assign_found ?P (\<lambda>item. (?f item)\<lparr>quantity := quantity (?f item) + q2\<rparr>) (items c)"
    by (rule assign_found_twice) simp
  finally show ?thesis by simp
qed

lemma add_twice_absent:
  fixes c :: "'n::{zero,plus,times} cart"
  assumes "find (\<lambda>item. product_id item = id_p p) (items c) = None"
  shows "items (addToCart_guest (addToCart_guest c p q1) p q2) =
     items c @ [\<lparr>product_id = id_p p, name = name_p p, price = price_p p,
                 image_url = image_url_p p, quantity = q1 + q2\<rparr>]"
proof -
  have first: "items (addToCart_guest c p q1) =
      items c @ [\<lparr>product_id = id_p p, name = name_p p, price = price_p p,
                 image_url = image_url_p p, quantity = q1\<rparr>]"
    using assms by (simp add: addToCart_guest_def Let_def)
  show ?thesis
    using assms
    by (simp add: addToCart_guest_def [of "addToCart_guest c p q1"] first Let_def
        find_append_absent assign_found_append_absent)
qed

lemma add_twice_anonymous:
  "\<not> authenticated s \<Longrightarrow>
   addToCart srv (addToCart srv s p q1) p q2 =
     s\<lparr>cart := addToCart_guest (addToCart_guest (cart s) p q1) p q2,
       guestCart := Some (addToCart_guest (addToCart_guest (cart s) p q1) p q2)\<rparr>"
  by (simp add: addToCart_anonymous)

subsection \<open>The guest branches of updateQuantity and removeFromCart\<close>

lemma updateQuantity_guest_cases:
  fixes c :: "'n::linordered_idom cart"
  shows
  "(1 \<le> qty \<and> find (\<lambda>item. product_id item = pid) (items c) = Some line \<longrightarrow>
      find (\<lambda>item. product_id item = pid) (items (updateQuantity_guest c pid qty))
        = Some (line\<lparr>quantity := qty\<rparr>) \<and>
      filter (\<lambda>item. product_id item \<noteq> pid) (items (updateQuantity_guest c pid qty))
        = filter (\<lambda>item. product_id item \<noteq> pid) (items c) \<and>
      length (items (updateQuantity_guest c pid qty)) = length (items c)) \<and>
   (qty \<le> 0 \<longrightarrow>
      find (\<lambda>item. product_id item = pid) (items (updateQuantity_guest c pid qty)) = None \<and>
      items (updateQuantity_guest c pid qty)
        = filter (\<lambda>item. product_id item \<noteq> pid) (items c)) \<and>
   (find (\<lambda>item. product_id item = pid) (items c) = None \<longrightarrow>
      items (updateQuantity_guest c pid qty) = items c) \<and>
   (find (\<lambda>item. product_id item = pid) (items c) = None \<and>
    total_c c = spec_total (items c) \<longrightarrow>
      updateQuantity_guest c pid qty = c) \<and>
   total_c (updateQuantity_guest c pid qty)
     = spec_total (items (updateQuantity_guest c pid qty))"
proof (intro conjI impI)
  assume "find (\<lambda>item. product_id item = pid) (items c) = None"
  then show "items (updateQuantity_guest c pid qty) = items c"
    by (simp add: updateQuantity_guest_def Let_def filter_absent)
next
  assume h: "1 \<le> qty \<and> find (\<lambda>item. product_id item = pid) (items c) = Some line"
  then have pos: "\<not> qty \<le> 0" by simp
  from h have pl: "product_id line = pid" by (auto simp: find_Some_iff)
  from h pos pl
  show "find (\<lambda>item. product_id item = pid) (items (updateQuantity_guest c pid qty))
        = Some (line\<lparr>quantity := qty\<rparr>)"
    by (simp add: updateQuantity_guest_def Let_def find_assign_found)
  from h pos
  show "filter (\<lambda>item. product_id item \<noteq> pid) (items (updateQuantity_guest c pid qty))
        = filter (\<lambda>item. product_id item \<noteq> pid) (items c)"
    using filter_assign_found [of "\<lambda>item. product_id item = pid"
        "\<lambda>item. item\<lparr>quantity := qty\<rparr>" "items c"]
    by (simp add: updateQuantity_guest_def Let_def)
  from h pos
  show "length (items (updateQuantity_guest c pid qty)) = length (items c)"
    by (simp add: updateQuantity_guest_def Let_def length_assign_found)
next
  assume "qty \<le> 0"
  then show
    "find (\<lambda>item. product_id item = pid) (items (updateQuantity_guest c pid qty)) = None"
    by (simp add: updateQuantity_guest_def Let_def find_None_iff)
  from \<open>qty \<le> 0\<close>
  show "items (updateQuantity_guest c pid qty)
        = filter (\<lambda>item. product_id item \<noteq> pid) (items c)"
    by (simp add: updateQuantity_guest_def Let_def)
next
  assume "find (\<lambda>item. product_id item = pid) (items c) = None \<and>
    total_c c = spec_total (items c)"
  then show "updateQuantity_guest c pid qty = c"
    by (simp add: updateQuantity_guest_def Let_def filter_absent reduce_total_line_order)
next
  show "total_c (updateQuantity_guest c pid qty)
     = spec_total (items (updateQuantity_guest c pid qty))"
    by (simp add: updateQuantity_guest_def Let_def reduce_total_line_order)
qed

lemma removeFromCart_guest_cases:
  "find (\<lambda>item. product_id item = pid) (items (removeFromCart_guest c pid)) = None \<and>
   items (removeFromCart_guest c pid) = filter (\<lambda>item. product_id item \<noteq> pid) (items c) \<and>
   (find (\<lambda>item. product_id item = pid) (items c) = None \<longrightarrow>
      items (removeFromCart_guest c pid) = items c) \<and>
   (find (\<lambda>item. product_id item = pid) (items c) = None \<and>
    total_c c = spec_total (items c) \<longrightarrow>
      removeFromCart_guest c pid = c) \<and>
   total_c (removeFromCart_guest c pid) = spec_total (items (removeFromCart_guest c pid)) \<and>
   removeFromCart_guest (removeFromCart_guest c pid) pid = removeFromCart_guest c pid"
  by (auto simp: removeFromCart_guest_def Let_def find_None_iff filter_absent
      reduce_total_line_order)

subsection \<open>Sign-in followed by the reload of the cart\<close>

lemma sign_in_store:
  "guestCart (CartProvider_effect srv s (snd (login srv email password s))) = guestCart s"
  by (simp add: login_def CartProvider_effect_def loadCart_def Let_def
      split: sum.splits option.splits)

lemma sign_up_store:
  "guestCart (CartProvider_effect srv s (snd (register srv email password name' s)))
     = guestCart s"
  by (simp add: register_def CartProvider_effect_def loadCart_def Let_def
      split: sum.splits option.splits)

lemma loadCart_store: "guestCart (loadCart srv s) = guestCart s"
  by (simp add: loadCart_def split: sum.splits option.splits)

lemma loadCart_signed_in:
  "authenticated s \<Longrightarrow> get_cart srv (bearer s) = Inr held \<Longrightarrow>
   cart (loadCart srv (s\<lparr>cart := c\<rparr>)) = held"
  by (auto simp: loadCart_def authenticated_def bearer_def split: option.splits)

lemma sign_in_cart:
  assumes "user s = None" and "post_auth_login srv email password = Inr access_token"
    and "access_token \<noteq> []" and "get_auth_me srv access_token = Inr data"
    and "get_cart srv access_token = Inr held"
  shows "cart (CartProvider_effect srv s (snd (login srv email password s))) = held"
  using assms
  by (simp add: login_def CartProvider_effect_def loadCart_def authenticated_def bearer_def
      Let_def)

lemma sign_up_cart:
  assumes "user s = None" and "post_auth_register srv email password name' = Inr access_token"
    and "access_token \<noteq> []" and "get_auth_me srv access_token = Inr data"
    and "get_cart srv access_token = Inr held"
  shows "cart (CartProvider_effect srv s (snd (register srv email password name' s))) = held"
  using assms
  by (simp add: register_def CartProvider_effect_def loadCart_def authenticated_def bearer_def
      Let_def)

subsection \<open>The concrete sessions, evaluated\<close>

lemmas engine_defs = addToCart_guest_def updateQuantity_guest_def removeFromCart_guest_def
  reduce_total_def reached_def empty_cart_def Let_def product_A_def product_B_def
  line_A_def line_B_def

lemma digits_now: "digits 1753178798861 = ''1753178798861''"
  by (simp add: digits.simps)

lemma visitor_eq:
  "visitor = \<lparr>user = None, token = None, cart = \<lparr>items = [], total_c = 0\<rparr>,
     stored_token = None, guestCart = None\<rparr>"
  by (simp add: visitor_def empty_cart_def)

lemma guest_with_A_eq:
  "guest_with_A =
     \<lparr>user = None, token = None, cart = \<lparr>items = [line_A 2], total_c = 50\<rparr>,
      stored_token = None, guestCart = Some \<lparr>items = [line_A 2], total_c = 50\<rparr>\<rparr>"
  by (simp add: guest_with_A_def visitor_eq addToCart_def authenticated_def saveGuestCart_def
      engine_defs)

lemma member_with_B_eq:
  "member_with_B =
     \<lparr>user = Some ''sarah'', token = Some ''jwt'',
      cart = \<lparr>items = [line_B 1], total_c = 35\<rparr>, stored_token = Some ''jwt'',
      guestCart = Some \<lparr>items = [line_A 2], total_c = 50\<rparr>\<rparr>"
  by (simp add: member_with_B_def guest_with_A_eq shop_def login_def CartProvider_effect_def
      loadCart_def authenticated_def bearer_def)

lemma guest_stale_total_eq:
  "guest_stale_total =
     \<lparr>user = None, token = None, cart = \<lparr>items = [line_A 2], total_c = 7\<rparr>,
      stored_token = None, guestCart = Some \<lparr>items = [line_A 2], total_c = 7\<rparr>\<rparr>"
  by (simp add: guest_stale_total_def visitor_eq loadCart_def authenticated_def)

section \<open>Results\<close>

subsection \<open>The total\<close>

text \<open>
  Claim C1. Every cart reached from the empty cart by a sequence of \<open>addToCart\<close>,
  \<open>updateQuantity\<close> and \<open>removeFromCart\<close> has a total equal to the sum over its lines of
  price times quantity, taken in line order as the specification words it. So has the
  cart that the provider's three functions leave when they are run, in a session
  without a signed-in user, from a state whose cart is the empty cart; there they run
  the engine. Each mutation computes the total afresh from the lines it leaves, from
  whatever cart it starts: the cart it leaves does not depend on the total held
  before. (In a signed-in session the three functions store the cart the server
  answers with.)
\<close>

theorem total_invariant:
  fixes ms :: "'n::{zero,plus,times,ord} mutation list"
  shows
  "total_c (reached ms) = spec_total (items (reached ms)) \<and>
   (\<not> authenticated s \<and> cart s = empty_cart \<longrightarrow>
      cart (foldl (perform srv) s ms) = reached ms \<and>
      total_c (cart (foldl (perform srv) s ms))
        = spec_total (items (cart (foldl (perform srv) s ms)))) \<and>
   (\<not> authenticated s \<longrightarrow>
      cart (perform srv s m) = mutate (cart s) m \<and>
      total_c (cart (perform srv s m)) = spec_total (items (cart (perform srv s m))) \<and>
      cart (perform srv (s\<lparr>cart := (cart s)\<lparr>total_c := t\<rparr>\<rparr>) m) = cart (perform srv s m)) \<and>
   total_c (mutate c m) = spec_total (items (mutate c m)) \<and>
   mutate (c\<lparr>total_c := t\<rparr>) m = mutate c m"
proof -
  have step: "total_c (mutate c' m') = spec_total (items (mutate c' m'))"
    for c' :: "'n cart" and m'
    by (simp only: total_after_mutate reduce_total_line_order)
  have run: "total_c (reached ms) = spec_total (items (reached ms))"
  proof (cases ms rule: rev_cases)
    case Nil
    then show ?thesis
      by (simp add: reached_def empty_cart_def spec_total_def)
  next
    case (snoc ms' m')
    then show ?thesis by (simp only: reached_snoc step)
  qed
  have from_empty: "cart (foldl (perform srv) s ms) = reached ms"
    if "\<not> authenticated s \<and> cart s = empty_cart"
    using that by (simp add: run_anonymous reached_def)
  have one: "cart (perform srv s m) = mutate (cart s) m" if "\<not> authenticated s"
    using that by (simp add: perform_anonymous)
  have forget: "cart (perform srv (s\<lparr>cart := (cart s)\<lparr>total_c := t\<rparr>\<rparr>) m) = cart (perform srv s m)"
    if "\<not> authenticated s"
    using that by (simp add: perform_anonymous mutate_forgets_total)
  show ?thesis
    using run step [of c m] step [of "cart s" m]
    by (auto simp: from_empty one forget mutate_forgets_total)
qed

text \<open>
  The theorem at the sequence of the shop's own test run: two of A, one of B, A set to
  three, B removed, one more A. After the second step the cart has two lines and the
  total 85, after the third the total 110.
\<close>

theorem total_invariant_witness:
  "\<not> authenticated visitor \<and> cart visitor = empty_cart \<and>
   cart (foldl (perform offline) visitor [AddToCart product_A 2, AddToCart product_B 1])
     = \<lparr>items = [line_A 2, line_B 1], total_c = 85\<rparr> \<and>
   spec_total [line_A 2, line_B 1] = 85 \<and>
   reached [AddToCart product_A 2, AddToCart product_B 1, UpdateQuantity ''A'' 3]
     = \<lparr>items = [line_A 3, line_B 1], total_c = 110\<rparr> \<and>
   spec_total [line_A 3, line_B 1] = 110 \<and>
   reached [AddToCart product_A 2, AddToCart product_B 1, UpdateQuantity ''A'' 3,
      RemoveFromCart ''B'', AddToCart product_A 1] = \<lparr>items = [line_A 4], total_c = 100\<rparr> \<and>
   \<not> authenticated guest_stale_total \<and>
   cart guest_stale_total = \<lparr>items = [line_A 2], total_c = 7\<rparr> \<and>
   cart (perform offline guest_stale_total (AddToCart product_B 1))
     = \<lparr>items = [line_A 2, line_B 1], total_c = 85\<rparr>"
  using total_invariant [where ms = "[AddToCart product_A 2, AddToCart product_B 1]"
      and s = visitor and srv = offline and m = "UpdateQuantity ''A'' 3" and t = 7
      and c = "\<lparr>items = [line_A 2, line_B 1], total_c = 85\<rparr>"]
    total_invariant [where ms = "[AddToCart product_A 2, AddToCart product_B 1,
      UpdateQuantity ''A'' 3]"
      and s = guest_stale_total and srv = offline and m = "AddToCart product_B 1" and t = 50
      and c = "\<lparr>items = [line_A 2, line_B 1], total_c = 85\<rparr>"]
    total_invariant [where ms = "[AddToCart product_A 2, AddToCart product_B 1,
      UpdateQuantity ''A'' 3, RemoveFromCart ''B'', AddToCart product_A 1]"
      and s = visitor and srv = offline and m = "RemoveFromCart ''B''" and t = 7
      and c = "\<lparr>items = [line_A 2, line_B 1], total_c = 85\<rparr>"]
  by (simp add: visitor_eq guest_stale_total_eq authenticated_def addToCart_def
      updateQuantity_def removeFromCart_def saveGuestCart_def spec_total_def engine_defs)

subsection \<open>Checkout\<close>

text \<open>
  Claim C2 fails as stated: the confirmation that the guest checkout returns has the
  fields \<open>order_id\<close>, \<open>total\<close> and \<open>message\<close> only. For the guest holding two of A it
  carries the total 50 and no lines, so its lines are not the cart's.
\<close>

theorem checkout_lines_counterexample:
  "items (cart guest_with_A) = [line_A 2] \<and>
   fst (checkout offline 1753178798861 guest_with_A) =
     Inr [(''order_id'', JString ''guest-1753178798861''),
          (''total'', JNumber 50),
          (''message'', JString ''Order placed successfully! (Guest checkout)'')] \<and>
   order_items [(''order_id'', JString ''guest-1753178798861''),
          (''total'', JNumber (50::int)),
          (''message'', JString ''Order placed successfully! (Guest checkout)'')] = None"
  by (simp add: guest_with_A_eq digits_now checkout_def authenticated_def order_items_def)

text \<open>
  Claim C2, amended. For every cart of a session without a signed-in user, \<open>checkout\<close>
  returns an order confirmation whose total is the total of the cart before checkout,
  with no tax added, and which carries no lines; afterwards the cart has no lines and
  total zero, and the \<open>guestCart\<close> entry of the local store is removed. In a signed-in
  session, when the server accepts the request, \<open>checkout\<close> returns the server's
  confirmation as it is and the client's cart has no lines and total zero.
\<close>

theorem checkout_consumes:
  "(\<not> authenticated s \<longrightarrow>
      (case fst (checkout srv now s) of
         Inr order \<Rightarrow> order_total order = Some (total_c (cart s)) \<and> order_items order = None
       | Inl e \<Rightarrow> False) \<and>
      cart (snd (checkout srv now s)) = \<lparr>items = [], total_c = 0\<rparr> \<and>
      guestCart (snd (checkout srv now s)) = None) \<and>
   (authenticated s \<and> post_cart_checkout srv (bearer s) = Inr data \<longrightarrow>
      checkout srv now s = (Inr data, s\<lparr>cart := \<lparr>items = [], total_c = 0\<rparr>\<rparr>))"
  by (simp add: checkout_def Let_def order_total_def order_items_def)

theorem checkout_consumes_witness:
  "\<not> authenticated guest_with_A \<and> items (cart guest_with_A) \<noteq> [] \<and>
   (case fst (checkout offline 1753178798861 guest_with_A) of
      Inr order \<Rightarrow> order_total order = Some 50 \<and> order_items order = None
    | Inl e \<Rightarrow> False) \<and>
   cart (snd (checkout offline 1753178798861 guest_with_A)) = \<lparr>items = [], total_c = 0\<rparr> \<and>
   guestCart (snd (checkout offline 1753178798861 guest_with_A)) = None \<and>
   authenticated member_with_B \<and> items (cart member_with_B) \<noteq> [] \<and>
   post_cart_checkout (shop empty_cart (Inr confirmation_B)) (bearer member_with_B)
     = Inr confirmation_B \<and>
   checkout (shop empty_cart (Inr confirmation_B)) 1753178798861 member_with_B =
     (Inr confirmation_B, member_with_B\<lparr>cart := \<lparr>items = [], total_c = 0\<rparr>\<rparr>)"
  using checkout_consumes [of guest_with_A offline 1753178798861 confirmation_B]
    checkout_consumes [of member_with_B "shop empty_cart (Inr confirmation_B)"
      1753178798861 confirmation_B]
  by (simp add: guest_with_A_eq member_with_B_eq authenticated_def bearer_def shop_def
      checkout_def order_total_def order_items_def)

text \<open>
  Claim C3 fails as stated: \<open>checkout\<close> does not look at the lines. Called in the
  session of a first-time visitor, whose cart is empty, it returns an order
  confirmation with total zero instead of failing.
\<close>

theorem empty_checkout_counterexample:
  "items (cart visitor) = [] \<and>
   fst (checkout offline 1753178798861 visitor) =
     Inr [(''order_id'', JString ''guest-1753178798861''),
          (''total'', JNumber 0),
          (''message'', JString ''Order placed successfully! (Guest checkout)'')]"
  by (simp add: visitor_eq digits_now checkout_def authenticated_def)

text \<open>
  Claim C3, amended. The check for an empty cart is made by the cart page, not by
  \<open>checkout\<close>: while the cart has no lines the page offers no checkout button, in either
  mode, and with at least one line the button runs \<open>handleCheckout\<close>. In a signed-in
  session the server decides: when it rejects the request, \<open>checkout\<close> throws that
  error, no order is returned and the state, the cart included, is unchanged.
\<close>

theorem empty_checkout_guard:
  "(items (cart s) = [] \<longrightarrow> CartPage_checkout_click srv now s = None) \<and>
   (items (cart s) \<noteq> [] \<longrightarrow>
      CartPage_checkout_click srv now s = Some (handleCheckout srv now s)) \<and>
   (authenticated s \<and> post_cart_checkout srv (bearer s) = Inl e \<longrightarrow>
      checkout srv now s = (Inl e, s) \<and> handleCheckout srv now s = (None, s))"
  by (simp add: CartPage_checkout_click_def checkout_def handleCheckout_def)

theorem empty_checkout_guard_witness:
  "items (cart visitor) = [] \<and> CartPage_checkout_click offline 1753178798861 visitor = None \<and>
   items (cart guest_with_A) \<noteq> [] \<and>
   CartPage_checkout_click offline 1753178798861 guest_with_A =
     Some (handleCheckout offline 1753178798861 guest_with_A) \<and>
   authenticated member_with_B \<and>
   post_cart_checkout (shop empty_cart (Inl (RequestFailed 400))) (bearer member_with_B)
     = Inl (RequestFailed 400) \<and>
   checkout (shop empty_cart (Inl (RequestFailed 400))) 1753178798861 member_with_B
     = (Inl (RequestFailed 400), member_with_B)"
  using empty_checkout_guard [of visitor offline 1753178798861 "RequestFailed 400"]
    empty_checkout_guard [of guest_with_A offline 1753178798861 "RequestFailed 400"]
    empty_checkout_guard [of member_with_B "shop empty_cart (Inl (RequestFailed 400))"
      1753178798861 "RequestFailed 400"]
  by (simp add: visitor_eq guest_with_A_eq member_with_B_eq authenticated_def bearer_def
      shop_def)

subsection \<open>Adding a product\<close>

text \<open>
  Claim C4 fails as stated for a cart that already holds the product: the quantities
  are added to the line that is there. With five of A in the cart, adding one and then
  two leaves eight, not three.
\<close>

theorem add_twice_counterexample:
  "items (addToCart_guest
      (addToCart_guest \<lparr>items = [line_A 5], total_c = 125\<rparr> product_A 1) product_A 2)
     = [line_A 8] \<and>
   quantity (line_A 8) \<noteq> 1 + 2"
  by (simp add: engine_defs)

text \<open>
  Claim C4, amended. In a session without a signed-in user: for every cart with no
  line for the product, \<open>addToCart\<close> with quantity \<open>q1\<close> followed by \<open>addToCart\<close> with \<open>q2\<close>
  yields exactly one line for it, of quantity \<open>q1 + q2\<close>, appended after the lines that
  were there. For a cart with one line per product that already holds the product
  with quantity \<open>q0\<close>, the two adds leave that one line with quantity \<open>(q0 + q1) + q2\<close>
  and every other line as it was. In both cases the total is the sum in line order
  over the resulting lines and the result is saved as the guest cart. The two adds
  performed in the opposite order leave the same state provided the additions, as the
  program computes them, give the same number either way: \<open>q1 + q2 = q2 + q1\<close> when the
  product was absent, \<open>(q0 + q1) + q2 = (q0 + q2) + q1\<close> when it was present. No law of
  addition is assumed: the sums are the program's own. In a signed-in session each
  add stores the cart the server returns and changes nothing when the request is
  rejected.
\<close>

theorem add_twice:
  fixes s :: "'n::{zero,plus,times} session"
  shows
  "(\<not> authenticated s \<longrightarrow>
      (find (\<lambda>item. product_id item = id_p p) (items (cart s)) = None \<longrightarrow>
         items (cart (addToCart srv (addToCart srv s p q1) p q2)) =
           items (cart s) @ [\<lparr>product_id = id_p p, name = name_p p, price = price_p p,
                               image_url = image_url_p p, quantity = q1 + q2\<rparr>] \<and>
         (q1 + q2 = q2 + q1 \<longrightarrow>
            addToCart srv (addToCart srv s p q1) p q2 =
              addToCart srv (addToCart srv s p q2) p q1)) \<and>
      (find (\<lambda>item. product_id item = id_p p) (items (cart s)) = Some line \<longrightarrow>
         filter (\<lambda>item. product_id item \<noteq> id_p p)
             (items (cart (addToCart srv (addToCart srv s p q1) p q2))) =
           filter (\<lambda>item. product_id item \<noteq> id_p p) (items (cart s)) \<and>
         (distinct (map product_id (items (cart s))) \<longrightarrow>
            filter (\<lambda>item. product_id item = id_p p)
                (items (cart (addToCart srv (addToCart srv s p q1) p q2))) =
              [line\<lparr>quantity := quantity line + q1 + q2\<rparr>]) \<and>
         (quantity line + q1 + q2 = quantity line + q2 + q1 \<longrightarrow>
            addToCart srv (addToCart srv s p q1) p q2 =
              addToCart srv (addToCart srv s p q2) p q1)) \<and>
      total_c (cart (addToCart srv (addToCart srv s p q1) p q2)) =
        spec_total (items (cart (addToCart srv (addToCart srv s p q1) p q2))) \<and>
      guestCart (addToCart srv (addToCart srv s p q1) p q2) =
        Some (cart (addToCart srv (addToCart srv s p q1) p q2))) \<and>
   (authenticated s \<longrightarrow>
      (post_cart_add srv (bearer s) (id_p p) q1 = Inr data \<longrightarrow>
         addToCart srv s p q1 = s\<lparr>cart := data\<rparr>) \<and>
      (post_cart_add srv (bearer s) (id_p p) q1 = Inl e \<longrightarrow> addToCart srv s p q1 = s))"
proof (intro conjI impI)
  assume anon: "\<not> authenticated s"
  let ?P = "\<lambda>item::'n item. product_id item = id_p p"
  let ?c12 = "addToCart_guest (addToCart_guest (cart s) p q1) p q2"
  let ?c21 = "addToCart_guest (addToCart_guest (cart s) p q2) p q1"
  have s12: "addToCart srv (addToCart srv s p q1) p q2 = s\<lparr>cart := ?c12, guestCart := Some ?c12\<rparr>"
    using anon by (rule add_twice_anonymous)
  have s21: "addToCart srv (addToCart srv s p q2) p q1 = s\<lparr>cart := ?c21, guestCart := Some ?c21\<rparr>"
    using anon by (rule add_twice_anonymous)
  have same: "?c12 = ?c21" if "items ?c12 = items ?c21"
    by (rule cart_eqI) (simp_all only: that total_after_add)
  show "total_c (cart (addToCart srv (addToCart srv s p q1) p q2)) =
        spec_total (items (cart (addToCart srv (addToCart srv s p q1) p q2)))"
    by (simp add: s12 total_after_add reduce_total_line_order)
  show "guestCart (addToCart srv (addToCart srv s p q1) p q2) =
        Some (cart (addToCart srv (addToCart srv s p q1) p q2))"
    by (simp add: s12)
  {
    assume absent: "find ?P (items (cart s)) = None"
    show "items (cart (addToCart srv (addToCart srv s p q1) p q2)) =
           items (cart s) @ [\<lparr>product_id = id_p p, name = name_p p, price = price_p p,
                               image_url = image_url_p p, quantity = q1 + q2\<rparr>]"
      using absent by (simp add: s12 add_twice_absent)
    assume "q1 + q2 = q2 + q1"
    with absent have "items ?c12 = items ?c21"
      by (simp add: add_twice_absent)
    then show "addToCart srv (addToCart srv s p q1) p q2 =
              addToCart srv (addToCart srv s p q2) p q1"
      by (simp add: s12 s21 same)
  }
  {
    assume present: "find ?P (items (cart s)) = Some line"
    then have pl: "product_id line = id_p p" by (auto simp: find_Some_iff)
    show "filter (\<lambda>item. product_id item \<noteq> id_p p)
             (items (cart (addToCart srv (addToCart srv s p q1) p q2))) =
           filter (\<lambda>item. product_id item \<noteq> id_p p) (items (cart s))"
      using present
        filter_assign_found [of ?P "\<lambda>item. item\<lparr>quantity := quantity item + q1 + q2\<rparr>"
          "items (cart s)"]
      by (simp add: s12 add_twice_present)
    {
      assume "distinct (map product_id (items (cart s)))"
      with present pl show "filter (\<lambda>item. product_id item = id_p p)
                (items (cart (addToCart srv (addToCart srv s p q1) p q2))) =
              [line\<lparr>quantity := quantity line + q1 + q2\<rparr>]"
        by (simp add: s12 add_twice_present filter_assign_found_distinct)
    }
    assume "quantity line + q1 + q2 = quantity line + q2 + q1"
    then have "assign_found ?P (\<lambda>item. item\<lparr>quantity := quantity item + q1 + q2\<rparr>)
          (items (cart s)) =
        assign_found ?P (\<lambda>item. item\<lparr>quantity := quantity item + q2 + q1\<rparr>)
          (items (cart s))"
      by (intro assign_found_same_on_found [OF present]) simp
    with present have "items ?c12 = items ?c21"
      by (simp add: add_twice_present)
    then show "addToCart srv (addToCart srv s p q1) p q2 =
              addToCart srv (addToCart srv s p q2) p q1"
      by (simp add: s12 s21 same)
  }
next
  assume "authenticated s" and "post_cart_add srv (bearer s) (id_p p) q1 = Inr data"
  then show "addToCart srv s p q1 = s\<lparr>cart := data\<rparr>"
    by (simp add: addToCart_def)
next
  assume "authenticated s" and "post_cart_add srv (bearer s) (id_p p) q1 = Inl e"
  then show "addToCart srv s p q1 = s"
    by (simp add: addToCart_def)
qed

theorem add_twice_witness:
  "\<not> authenticated visitor \<and>
   find (\<lambda>item. product_id item = id_p product_A) (items (cart visitor)) = None \<and>
   cart (addToCart offline (addToCart offline visitor product_A 1) product_A 2)
     = \<lparr>items = [line_A 3], total_c = 75\<rparr> \<and>
   (1::int) + 2 = 2 + 1 \<and>
   addToCart offline (addToCart offline visitor product_A 1) product_A 2
     = addToCart offline (addToCart offline visitor product_A 2) product_A 1 \<and>
   \<not> authenticated guest_with_A \<and>
   find (\<lambda>item. product_id item = id_p product_A) (items (cart guest_with_A))
     = Some (line_A 2) \<and>
   distinct (map product_id (items (cart guest_with_A))) \<and>
   quantity (line_A 2) + 1 + 2 = quantity (line_A 2) + 2 + 1 \<and>
   cart (addToCart offline (addToCart offline guest_with_A product_A 1) product_A 2)
     = \<lparr>items = [line_A 5], total_c = 125\<rparr> \<and>
   addToCart offline (addToCart offline guest_with_A product_A 1) product_A 2
     = addToCart offline (addToCart offline guest_with_A product_A 2) product_A 1 \<and>
   authenticated member_with_B \<and>
   post_cart_add offline (bearer member_with_B) (id_p product_A) 1 = Inl (RequestFailed 0) \<and>
   addToCart offline member_with_B product_A 1 = member_with_B"
  using add_twice [where s = visitor and p = product_A and srv = offline and ?q1.0 = 1
      and ?q2.0 = 2 and line = "line_A 2" and data = empty_cart and e = "RequestFailed 0"]
    add_twice [where s = guest_with_A and p = product_A and srv = offline and ?q1.0 = 1
      and ?q2.0 = 2 and line = "line_A 2" and data = empty_cart and e = "RequestFailed 0"]
    add_twice [where s = member_with_B and p = product_A and srv = offline and ?q1.0 = 1
      and ?q2.0 = 2 and line = "line_A 2" and data = empty_cart and e = "RequestFailed 0"]
  by (simp add: visitor_eq guest_with_A_eq member_with_B_eq authenticated_def bearer_def
      addToCart_def saveGuestCart_def offline_def engine_defs)

text \<open>
  Claim C5 fails as stated: \<open>addToCart\<close> does not test its quantity and has no way to
  reject. On the empty cart, quantity zero adds a line of quantity zero, and quantity
  minus one a line of quantity minus one.
\<close>

theorem add_nonpositive_counterexample:
  "addToCart_guest empty_cart product_A 0 = \<lparr>items = [line_A 0], total_c = 0\<rparr> \<and>
   addToCart_guest empty_cart product_A 0 \<noteq> empty_cart \<and>
   addToCart_guest empty_cart product_A (- 1) = \<lparr>items = [line_A (- 1)], total_c = - 25\<rparr>"
  by (simp add: engine_defs)

text \<open>
  Claim C5, amended. \<open>addToCart\<close> leaves the bound on the quantity to its callers (the
  parameter defaults to one): called with a quantity of at least one on a cart whose
  lines all have a quantity of at least one, it yields a cart whose lines all have a
  quantity of at least one, so no line of quantity zero or less is created. There is
  no rejection with \<open>InvalidInput\<close>.
\<close>

theorem add_keeps_quantities_positive:
  fixes c :: "'n::linordered_idom cart"
  shows "1 \<le> qty \<and> list_all (\<lambda>item. 1 \<le> quantity item) (items c) \<longrightarrow>
     list_all (\<lambda>item. 1 \<le> quantity item) (items (addToCart_guest c p qty))"
  by (auto simp: addToCart_guest_def Let_def split: option.splits
      intro!: list_all_assign_found)

theorem add_keeps_quantities_positive_witness:
  "(1::int) \<le> 1 \<and>
   list_all (\<lambda>item. 1 \<le> quantity item) (items \<lparr>items = [line_A 2, line_B 1], total_c = 85\<rparr>) \<and>
   list_all (\<lambda>item. 1 \<le> quantity item)
     (items (addToCart_guest \<lparr>items = [line_A 2, line_B 1], total_c = 85\<rparr> product_A 1)) \<and>
   items (addToCart_guest \<lparr>items = [line_A 2, line_B 1], total_c = 85\<rparr> product_A 1)
     = [line_A 3, line_B 1]"
  using add_keeps_quantities_positive
    [of 1 "\<lparr>items = [line_A 2, line_B 1], total_c = 85\<rparr>" product_A]
  by (simp add: engine_defs)

subsection \<open>Changing a quantity\<close>

text \<open>
  Claim C6 fails as stated, in two ways. In a signed-in session \<open>updateQuantity\<close> only
  sends the request: with the server out of reach the member's line for B keeps its
  quantity one although three was asked for. And with no line for the product the
  total is still computed afresh: the guest whose stored cart holds two of A with the
  total 7 gets the total 50 back, so the cart is not returned unchanged.
\<close>

theorem updateQuantity_counterexample:
  "authenticated member_with_B \<and>
   items (cart member_with_B) = [line_B 1] \<and>
   items (cart (updateQuantity offline member_with_B ''B'' 3)) = [line_B 1] \<and>
   quantity (line_B 1) \<noteq> 3 \<and>
   \<not> authenticated guest_stale_total \<and>
   cart guest_stale_total = \<lparr>items = [line_A 2], total_c = 7\<rparr> \<and>
   cart (updateQuantity offline guest_stale_total ''B'' 4)
     = \<lparr>items = [line_A 2], total_c = 50\<rparr>"
  by (simp add: member_with_B_eq guest_stale_total_eq authenticated_def bearer_def
      updateQuantity_def saveGuestCart_def offline_def engine_defs)

text \<open>
  Claim C6, amended. In a session without a signed-in user, \<open>updateQuantity(productId,
  quantity)\<close> behaves as follows for every cart: when the cart has a line for the
  product and the quantity is at least one, that line gets exactly the given quantity,
  the other lines and the number of lines stay; when the quantity is zero or less,
  every line for the product is removed and the other lines stay, without an error;
  when the cart has no line for the product, the lines are returned as they were and
  the total is computed afresh from them, so that the cart is returned unchanged
  whenever its total was the sum in line order over its lines. In each case the total
  of the result is that sum and the result is saved as the guest cart. In a signed-in
  session the function only sends the request: it stores the cart the server returns
  and changes nothing when the request is rejected.
\<close>

theorem updateQuantity_cases:
  fixes s :: "'n::linordered_idom session"
  shows
  "(\<not> authenticated s \<longrightarrow>
      (1 \<le> qty \<and> find (\<lambda>item. product_id item = pid) (items (cart s)) = Some line \<longrightarrow>
         find (\<lambda>item. product_id item = pid) (items (cart (updateQuantity srv s pid qty)))
           = Some (line\<lparr>quantity := qty\<rparr>) \<and>
         filter (\<lambda>item. product_id item \<noteq> pid) (items (cart (updateQuantity srv s pid qty)))
           = filter (\<lambda>item. product_id item \<noteq> pid) (items (cart s)) \<and>
         length (items (cart (updateQuantity srv s pid qty))) = length (items (cart s))) \<and>
      (qty \<le> 0 \<longrightarrow>
         find (\<lambda>item. product_id item = pid) (items (cart (updateQuantity srv s pid qty)))
           = None \<and>
         items (cart (updateQuantity srv s pid qty))
           = filter (\<lambda>item. product_id item \<noteq> pid) (items (cart s))) \<and>
      (find (\<lambda>item. product_id item = pid) (items (cart s)) = None \<longrightarrow>
         items (cart (updateQuantity srv s pid qty)) = items (cart s)) \<and>
      (find (\<lambda>item. product_id item = pid) (items (cart s)) = None \<and>
       total_c (cart s) = spec_total (items (cart s)) \<longrightarrow>
         cart (updateQuantity srv s pid qty) = cart s) \<and>
      total_c (cart (updateQuantity srv s pid qty))
        = spec_total (items (cart (updateQuantity srv s pid qty))) \<and>
      guestCart (updateQuantity srv s pid qty) = Some (cart (updateQuantity srv s pid qty))) \<and>
   (authenticated s \<longrightarrow>
      (put_cart_update srv (bearer s) pid qty = Inr data \<longrightarrow>
         updateQuantity srv s pid qty = s\<lparr>cart := data\<rparr>) \<and>
      (put_cart_update srv (bearer s) pid qty = Inl e \<longrightarrow> updateQuantity srv s pid qty = s))"
proof (intro conjI)
  show "\<not> authenticated s \<longrightarrow>
      (1 \<le> qty \<and> find (\<lambda>item. product_id item = pid) (items (cart s)) = Some line \<longrightarrow>
         find (\<lambda>item. product_id item = pid) (items (cart (updateQuantity srv s pid qty)))
           = Some (line\<lparr>quantity := qty\<rparr>) \<and>
         filter (\<lambda>item. product_id item \<noteq> pid) (items (cart (updateQuantity srv s pid qty)))
           = filter (\<lambda>item. product_id item \<noteq> pid) (items (cart s)) \<and>
         length (items (cart (updateQuantity srv s pid qty))) = length (items (cart s))) \<and>
      (qty \<le> 0 \<longrightarrow>
         find (\<lambda>item. product_id item = pid) (items (cart (updateQuantity srv s pid qty)))
           = None \<and>
         items (cart (updateQuantity srv s pid qty))
           = filter (\<lambda>item. product_id item \<noteq> pid) (items (cart s))) \<and>
      (find (\<lambda>item. product_id item = pid) (items (cart s)) = None \<longrightarrow>
         items (cart (updateQuantity srv s pid qty)) = items (cart s)) \<and>
      (find (\<lambda>item. product_id item = pid) (items (cart s)) = None \<and>
       total_c (cart s) = spec_total (items (cart s)) \<longrightarrow>
         cart (updateQuantity srv s pid qty) = cart s) \<and>
      total_c (cart (updateQuantity srv s pid qty))
        = spec_total (items (cart (updateQuantity srv s pid qty))) \<and>
      guestCart (updateQuantity srv s pid qty) = Some (cart (updateQuantity srv s pid qty))"
  proof
    assume anon: "\<not> authenticated s"
    have upd: "cart (updateQuantity srv s pid qty) = updateQuantity_guest (cart s) pid qty"
      and saved: "guestCart (updateQuantity srv s pid qty)
        = Some (updateQuantity_guest (cart s) pid qty)"
      using anon by (simp_all add: updateQuantity_anonymous)
    show "(1 \<le> qty \<and> find (\<lambda>item. product_id item = pid) (items (cart s)) = Some line \<longrightarrow>
         find (\<lambda>item. product_id item = pid) (items (cart (updateQuantity srv s pid qty)))
           = Some (line\<lparr>quantity := qty\<rparr>) \<and>
         filter (\<lambda>item. product_id item \<noteq> pid) (items (cart (updateQuantity srv s pid qty)))
           = filter (\<lambda>item. product_id item \<noteq> pid) (items (cart s)) \<and>
         length (items (cart (updateQuantity srv s pid qty))) = length (items (cart s))) \<and>
      (qty \<le> 0 \<longrightarrow>
         find (\<lambda>item. product_id item = pid) (items (cart (updateQuantity srv s pid qty)))
           = None \<and>
         items (cart (updateQuantity srv s pid qty))
           = filter (\<lambda>item. product_id item \<noteq> pid) (items (cart s))) \<and>
      (find (\<lambda>item. product_id item = pid) (items (cart s)) = None \<longrightarrow>
         items (cart (updateQuantity srv s pid qty)) = items (cart s)) \<and>
      (find (\<lambda>item. product_id item = pid) (items (cart s)) = None \<and>
       total_c (cart s) = spec_total (items (cart s)) \<longrightarrow>
         cart (updateQuantity srv s pid qty) = cart s) \<and>
      total_c (cart (updateQuantity srv s pid qty))
        = spec_total (items (cart (updateQuantity srv s pid qty))) \<and>
      guestCart (updateQuantity srv s pid qty) = Some (cart (updateQuantity srv s pid qty))"
      unfolding saved unfolding upd
      using updateQuantity_guest_cases [of qty pid "cart s" line] by blast
  qed
  show "authenticated s \<longrightarrow>
      (put_cart_update srv (bearer s) pid qty = Inr data \<longrightarrow>
         updateQuantity srv s pid qty = s\<lparr>cart := data\<rparr>) \<and>
      (put_cart_update srv (bearer s) pid qty = Inl e \<longrightarrow> updateQuantity srv s pid qty = s)"
    by (simp add: updateQuantity_def)
qed

theorem updateQuantity_cases_witness:
  "\<not> authenticated guest_with_A \<and> (1::int) \<le> 3 \<and>
   find (\<lambda>item. product_id item = ''A'') (items (cart guest_with_A)) = Some (line_A 2) \<and>
   cart (updateQuantity offline guest_with_A ''A'' 3) = \<lparr>items = [line_A 3], total_c = 75\<rparr> \<and>
   guestCart (updateQuantity offline guest_with_A ''A'' 3)
     = Some \<lparr>items = [line_A 3], total_c = 75\<rparr> \<and>
   (0::int) \<le> 0 \<and>
   cart (updateQuantity offline guest_with_A ''A'' 0) = \<lparr>items = [], total_c = 0\<rparr> \<and>
   find (\<lambda>item. product_id item = ''B'') (items (cart guest_with_A)) = None \<and>
   total_c (cart guest_with_A) = spec_total (items (cart guest_with_A)) \<and>
   cart (updateQuantity offline guest_with_A ''B'' 4) = cart guest_with_A \<and>
   authenticated member_with_B \<and>
   put_cart_update offline (bearer member_with_B) ''B'' 3 = Inl (RequestFailed 0) \<and>
   updateQuantity offline member_with_B ''B'' 3 = member_with_B"
  using updateQuantity_cases [where s = guest_with_A and srv = offline and qty = 3
      and pid = "''A''" and line = "line_A 2" and data = empty_cart and e = "RequestFailed 0"]
    updateQuantity_cases [where s = guest_with_A and srv = offline and qty = 0
      and pid = "''A''" and line = "line_A 2" and data = empty_cart and e = "RequestFailed 0"]
    updateQuantity_cases [where s = guest_with_A and srv = offline and qty = 4
      and pid = "''B''" and line = "line_A 2" and data = empty_cart and e = "RequestFailed 0"]
    updateQuantity_cases [where s = member_with_B and srv = offline and qty = 3
      and pid = "''B''" and line = "line_B 1" and data = empty_cart and e = "RequestFailed 0"]
  by (simp add: guest_with_A_eq member_with_B_eq authenticated_def bearer_def
      updateQuantity_def saveGuestCart_def offline_def spec_total_def engine_defs)

subsection \<open>Signing in\<close>

text \<open>
  Claim C7 fails as stated: the client has no merge step. The guest holding two of A
  signs in to an account whose server cart is empty; the effect that follows loads the
  server's cart, so the cart shown has no line, and the \<open>guestCart\<close> entry of the local
  store still holds the two of A.
\<close>

theorem sign_in_merge_counterexample:
  "items (cart guest_with_A) = [line_A 2] \<and>
   fst (login (shop empty_cart (Inl (RequestFailed 400))) ''sarah@example.com'' ''secret''
     guest_with_A) = True \<and>
   items (cart (CartProvider_effect (shop empty_cart (Inl (RequestFailed 400))) guest_with_A
     (snd (login (shop empty_cart (Inl (RequestFailed 400))) ''sarah@example.com'' ''secret''
        guest_with_A)))) = [] \<and>
   guestCart (CartProvider_effect (shop empty_cart (Inl (RequestFailed 400))) guest_with_A
     (snd (login (shop empty_cart (Inl (RequestFailed 400))) ''sarah@example.com'' ''secret''
        guest_with_A)))
     = Some \<lparr>items = [line_A 2], total_c = 50\<rparr>"
  by (simp add: guest_with_A_eq shop_def login_def CartProvider_effect_def loadCart_def
      authenticated_def bearer_def empty_cart_def)

text \<open>
  Claim C7, amended. At a successful sign-in or registration of a session without a
  user, the effect on \<open>user\<close> and \<open>token\<close> loads the cart again: the client's cart becomes
  the cart the server returns for the new token, in answer to a request that carries
  nothing of the anonymous cart. No line of the anonymous cart is merged: in a
  signed-in session \<open>loadCart\<close> leaves the server's cart whatever the client's cart was
  before. The \<open>guestCart\<close> entry of the local store is left as it was, by \<open>loadCart\<close> and
  by the whole transition.
\<close>

theorem sign_in_replaces_cart:
  "guestCart (loadCart srv s) = guestCart s \<and>
   (authenticated s \<and> get_cart srv (bearer s) = Inr held \<longrightarrow>
      cart (loadCart srv (s\<lparr>cart := c\<rparr>)) = held) \<and>
   guestCart (CartProvider_effect srv s (snd (login srv email password s))) = guestCart s \<and>
   guestCart (CartProvider_effect srv s (snd (register srv email password name' s)))
     = guestCart s \<and>
   (user s = None \<and> post_auth_login srv email password = Inr access_token \<and>
    access_token \<noteq> [] \<and> get_auth_me srv access_token = Inr data \<and>
    get_cart srv access_token = Inr held \<longrightarrow>
      cart (CartProvider_effect srv s (snd (login srv email password s))) = held) \<and>
   (user s = None \<and> post_auth_register srv email password name' = Inr access_token \<and>
    access_token \<noteq> [] \<and> get_auth_me srv access_token = Inr data \<and>
    get_cart srv access_token = Inr held \<longrightarrow>
      cart (CartProvider_effect srv s (snd (register srv email password name' s))) = held)"
proof (intro conjI impI)
  show "guestCart (loadCart srv s) = guestCart s"
    by (rule loadCart_store)
  show "guestCart (CartProvider_effect srv s (snd (login srv email password s))) = guestCart s"
    by (rule sign_in_store)
  show "guestCart (CartProvider_effect srv s (snd (register srv email password name' s)))
     = guestCart s"
    by (rule sign_up_store)
next
  assume "authenticated s \<and> get_cart srv (bearer s) = Inr held"
  then show "cart (loadCart srv (s\<lparr>cart := c\<rparr>)) = held"
    by (simp add: loadCart_signed_in)
next
  assume "user s = None \<and> post_auth_login srv email password = Inr access_token \<and>
    access_token \<noteq> [] \<and> get_auth_me srv access_token = Inr data \<and>
    get_cart srv access_token = Inr held"
  then show "cart (CartProvider_effect srv s (snd (login srv email password s))) = held"
    by (intro sign_in_cart [where data = data and access_token = access_token]) simp_all
next
  assume "user s = None \<and> post_auth_register srv email password name' = Inr access_token \<and>
    access_token \<noteq> [] \<and> get_auth_me srv access_token = Inr data \<and>
    get_cart srv access_token = Inr held"
  then show "cart (CartProvider_effect srv s (snd (register srv email password name' s))) = held"
    by (intro sign_up_cart [where data = data and access_token = access_token]) simp_all
qed

theorem sign_in_replaces_cart_witness:
  "authenticated member_with_B \<and>
   get_cart (shop \<lparr>items = [line_B 1], total_c = 35\<rparr> (Inl (RequestFailed 400)))
     (bearer member_with_B) = Inr \<lparr>items = [line_B 1], total_c = 35\<rparr> \<and>
   cart (loadCart (shop \<lparr>items = [line_B 1], total_c = 35\<rparr> (Inl (RequestFailed 400)))
     (member_with_B\<lparr>cart := \<lparr>items = [line_A 2], total_c = 50\<rparr>\<rparr>))
     = \<lparr>items = [line_B 1], total_c = 35\<rparr> \<and>
   user guest_with_A = None \<and>
   post_auth_login (shop \<lparr>items = [line_B 1], total_c = 35\<rparr> (Inl (RequestFailed 400)))
     ''sarah@example.com'' ''secret'' = Inr ''jwt'' \<and>
   ''jwt'' \<noteq> [] \<and>
   get_auth_me (shop \<lparr>items = [line_B 1], total_c = 35\<rparr> (Inl (RequestFailed 400))) ''jwt''
     = Inr ''sarah'' \<and>
   get_cart (shop \<lparr>items = [line_B 1], total_c = 35\<rparr> (Inl (RequestFailed 400))) ''jwt''
     = Inr \<lparr>items = [line_B 1], total_c = 35\<rparr> \<and>
   cart (CartProvider_effect (shop \<lparr>items = [line_B 1], total_c = 35\<rparr> (Inl (RequestFailed 400)))
     guest_with_A
     (snd (login (shop \<lparr>items = [line_B 1], total_c = 35\<rparr> (Inl (RequestFailed 400)))
        ''sarah@example.com'' ''secret'' guest_with_A)))
     = \<lparr>items = [line_B 1], total_c = 35\<rparr> \<and>
   guestCart (CartProvider_effect
     (shop \<lparr>items = [line_B 1], total_c = 35\<rparr> (Inl (RequestFailed 400))) guest_with_A
     (snd (login (shop \<lparr>items = [line_B 1], total_c = 35\<rparr> (Inl (RequestFailed 400)))
        ''sarah@example.com'' ''secret'' guest_with_A)))
     = Some \<lparr>items = [line_A 2], total_c = 50\<rparr> \<and>
   cart (CartProvider_effect (shop \<lparr>items = [line_B 1], total_c = 35\<rparr> (Inl (RequestFailed 400)))
     guest_with_A
     (snd (register (shop \<lparr>items = [line_B 1], total_c = 35\<rparr> (Inl (RequestFailed 400)))
        ''sarah@example.com'' ''secret'' ''Sarah'' guest_with_A)))
     = \<lparr>items = [line_B 1], total_c = 35\<rparr>"
  using sign_in_replaces_cart
    [of "shop \<lparr>items = [line_B 1], total_c = 35\<rparr> (Inl (RequestFailed 400))" guest_with_A
      "\<lparr>items = [line_B 1], total_c = 35\<rparr>" "\<lparr>items = [line_A 2], total_c = 50\<rparr>"
      "''sarah@example.com''" "''secret''" "''Sarah''" "''jwt''" "''sarah''"]
    sign_in_replaces_cart
    [of "shop \<lparr>items = [line_B 1], total_c = 35\<rparr> (Inl (RequestFailed 400))" member_with_B
      "\<lparr>items = [line_B 1], total_c = 35\<rparr>" "\<lparr>items = [line_A 2], total_c = 50\<rparr>"
      "''sarah@example.com''" "''secret''" "''Sarah''" "''jwt''" "''sarah''"]
  by (simp add: guest_with_A_eq member_with_B_eq shop_def authenticated_def bearer_def)

subsection \<open>One line per product\<close>

text \<open>
  Claim C8. In every cart reached from the empty cart by a sequence of \<open>addToCart\<close>,
  \<open>updateQuantity\<close> and \<open>removeFromCart\<close> no two lines have the same \<open>product_id\<close>; so it
  is in the cart the provider's three functions leave when they are run, in a session
  without a signed-in user, from a state whose cart is the empty cart. Each of the
  three mutations takes a cart with one line per product to a cart with one line per
  product, in the engine and as the provider's function.
\<close>

theorem unique_products:
  "distinct (map product_id (items (reached ms))) \<and>
   (\<not> authenticated s \<and> cart s = empty_cart \<longrightarrow>
      distinct (map product_id (items (cart (foldl (perform srv) s ms))))) \<and>
   (\<not> authenticated s \<and> distinct (map product_id (items (cart s))) \<longrightarrow>
      distinct (map product_id (items (cart (perform srv s m))))) \<and>
   (distinct (map product_id (items c)) \<longrightarrow>
      distinct (map product_id (items (mutate c m))))"
proof (intro conjI impI)
  show "distinct (map product_id (items (reached ms)))"
    by (simp add: reached_def distinct_foldl_mutate empty_cart_def)
next
  assume "\<not> authenticated s \<and> cart s = empty_cart"
  then show "distinct (map product_id (items (cart (foldl (perform srv) s ms))))"
    by (simp add: run_anonymous distinct_foldl_mutate empty_cart_def)
next
  assume "\<not> authenticated s \<and> distinct (map product_id (items (cart s)))"
  then show "distinct (map product_id (items (cart (perform srv s m))))"
    by (simp add: perform_anonymous distinct_mutate)
next
  assume "distinct (map product_id (items c))"
  then show "distinct (map product_id (items (mutate c m)))"
    by (rule distinct_mutate)
qed

theorem unique_products_witness:
  "map product_id (items (reached [AddToCart product_A 2, AddToCart product_B 1,
      UpdateQuantity ''A'' 3, AddToCart product_A 1])) = [''A'', ''B''] \<and>
   \<not> authenticated visitor \<and> cart visitor = empty_cart \<and>
   map product_id (items (cart (foldl (perform offline) visitor
      [AddToCart product_A 2, AddToCart product_B 1, UpdateQuantity ''A'' 3,
       AddToCart product_A 1]))) = [''A'', ''B''] \<and>
   \<not> authenticated guest_with_A \<and>
   distinct (map product_id (items (cart guest_with_A))) \<and>
   map product_id (items (cart (perform offline guest_with_A (AddToCart product_A 1))))
     = [''A''] \<and>
   distinct (map product_id (items \<lparr>items = [line_A 2, line_B 1], total_c = 85\<rparr>)) \<and>
   map product_id
     (items (mutate \<lparr>items = [line_A 2, line_B 1], total_c = 85\<rparr> (AddToCart product_A 1)))
     = [''A'', ''B'']"
  using unique_products [where ms = "[AddToCart product_A 2, AddToCart product_B 1,
      UpdateQuantity ''A'' 3, AddToCart product_A 1]" and s = visitor and srv = offline
      and m = "AddToCart product_A 1"
      and c = "\<lparr>items = [line_A 2, line_B 1], total_c = 85\<rparr>"]
    unique_products [where ms = "[AddToCart product_A 2, AddToCart product_B 1,
      UpdateQuantity ''A'' 3, AddToCart product_A 1]" and s = guest_with_A and srv = offline
      and m = "AddToCart product_A 1"
      and c = "\<lparr>items = [line_A 2, line_B 1], total_c = 85\<rparr>"]
  by (simp add: visitor_eq guest_with_A_eq authenticated_def addToCart_def
      updateQuantity_def removeFromCart_def saveGuestCart_def engine_defs)

subsection \<open>Removing a product\<close>

text \<open>
  Claim C9 fails as stated, in two ways. In a signed-in session \<open>removeFromCart\<close> only
  sends the request: with the server out of reach the member's line for B is still
  there. And with no line for the product the total is still computed afresh: the
  guest whose stored cart holds two of A with the total 7 gets the total 50 back, so
  the cart is not identical to the input.
\<close>

theorem removeFromCart_counterexample:
  "authenticated member_with_B \<and>
   items (cart member_with_B) = [line_B 1] \<and>
   items (cart (removeFromCart offline member_with_B ''B'')) = [line_B 1] \<and>
   \<not> authenticated guest_stale_total \<and>
   cart guest_stale_total = \<lparr>items = [line_A 2], total_c = 7\<rparr> \<and>
   cart (removeFromCart offline guest_stale_total ''B'') = \<lparr>items = [line_A 2], total_c = 50\<rparr>"
  by (simp add: member_with_B_eq guest_stale_total_eq authenticated_def bearer_def
      removeFromCart_def saveGuestCart_def offline_def engine_defs)

text \<open>
  Claim C9, amended. In a session without a signed-in user, \<open>removeFromCart(productId)\<close>
  leaves no line for the product and keeps the other lines, in order; on a cart with
  no line for the product it returns the lines as they were and computes the total
  afresh from them, so that the cart is identical to the input whenever its total was
  the sum in line order over its lines; it raises nothing; the result is saved as the
  guest cart; and removing twice leaves the same state as removing once. In a
  signed-in session the function only sends the request: it stores the cart the server
  returns and changes nothing when the request is rejected.
\<close>

theorem remove_idempotent:
  "(\<not> authenticated s \<longrightarrow>
      find (\<lambda>item. product_id item = pid) (items (cart (removeFromCart srv s pid))) = None \<and>
      items (cart (removeFromCart srv s pid))
        = filter (\<lambda>item. product_id item \<noteq> pid) (items (cart s)) \<and>
      (find (\<lambda>item. product_id item = pid) (items (cart s)) = None \<longrightarrow>
         items (cart (removeFromCart srv s pid)) = items (cart s)) \<and>
      (find (\<lambda>item. product_id item = pid) (items (cart s)) = None \<and>
       total_c (cart s) = spec_total (items (cart s)) \<longrightarrow>
         cart (removeFromCart srv s pid) = cart s) \<and>
      total_c (cart (removeFromCart srv s pid))
        = spec_total (items (cart (removeFromCart srv s pid))) \<and>
      guestCart (removeFromCart srv s pid) = Some (cart (removeFromCart srv s pid)) \<and>
      removeFromCart srv (removeFromCart srv s pid) pid = removeFromCart srv s pid) \<and>
   (authenticated s \<longrightarrow>
      (delete_cart_remove srv (bearer s) pid = Inr data \<longrightarrow>
         removeFromCart srv s pid = s\<lparr>cart := data\<rparr>) \<and>
      (delete_cart_remove srv (bearer s) pid = Inl e \<longrightarrow> removeFromCart srv s pid = s))"
proof (intro conjI)
  show "\<not> authenticated s \<longrightarrow>
      find (\<lambda>item. product_id item = pid) (items (cart (removeFromCart srv s pid))) = None \<and>
      items (cart (removeFromCart srv s pid))
        = filter (\<lambda>item. product_id item \<noteq> pid) (items (cart s)) \<and>
      (find (\<lambda>item. product_id item = pid) (items (cart s)) = None \<longrightarrow>
         items (cart (removeFromCart srv s pid)) = items (cart s)) \<and>
      (find (\<lambda>item. product_id item = pid) (items (cart s)) = None \<and>
       total_c (cart s) = spec_total (items (cart s)) \<longrightarrow>
         cart (removeFromCart srv s pid) = cart s) \<and>
      total_c (cart (removeFromCart srv s pid))
        = spec_total (items (cart (removeFromCart srv s pid))) \<and>
      guestCart (removeFromCart srv s pid) = Some (cart (removeFromCart srv s pid)) \<and>
      removeFromCart srv (removeFromCart srv s pid) pid = removeFromCart srv s pid"
  proof
    assume anon: "\<not> authenticated s"
    have rm: "cart (removeFromCart srv s pid) = removeFromCart_guest (cart s) pid"
      and saved: "guestCart (removeFromCart srv s pid)
        = Some (removeFromCart_guest (cart s) pid)"
      using anon by (simp_all add: removeFromCart_anonymous)
    have twice: "removeFromCart srv (removeFromCart srv s pid) pid = removeFromCart srv s pid"
      using anon removeFromCart_guest_cases [of pid "cart s"]
      by (simp add: removeFromCart_anonymous)
    show "find (\<lambda>item. product_id item = pid) (items (cart (removeFromCart srv s pid))) = None \<and>
      items (cart (removeFromCart srv s pid))
        = filter (\<lambda>item. product_id item \<noteq> pid) (items (cart s)) \<and>
      (find (\<lambda>item. product_id item = pid) (items (cart s)) = None \<longrightarrow>
         items (cart (removeFromCart srv s pid)) = items (cart s)) \<and>
      (find (\<lambda>item. product_id item = pid) (items (cart s)) = None \<and>
       total_c (cart s) = spec_total (items (cart s)) \<longrightarrow>
         cart (removeFromCart srv s pid) = cart s) \<and>
      total_c (cart (removeFromCart srv s pid))
        = spec_total (items (cart (removeFromCart srv s pid))) \<and>
      guestCart (removeFromCart srv s pid) = Some (cart (removeFromCart srv s pid)) \<and>
      removeFromCart srv (removeFromCart srv s pid) pid = removeFromCart srv s pid"
      unfolding twice unfolding saved unfolding rm
      using removeFromCart_guest_cases [of pid "cart s"] by blast
  qed
  show "authenticated s \<longrightarrow>
      (delete_cart_remove srv (bearer s) pid = Inr data \<longrightarrow>
         removeFromCart srv s pid = s\<lparr>cart := data\<rparr>) \<and>
      (delete_cart_remove srv (bearer s) pid = Inl e \<longrightarrow> removeFromCart srv s pid = s)"
    by (simp add: removeFromCart_def)
qed

theorem remove_idempotent_witness:
  "\<not> authenticated guest_with_A \<and>
   cart (removeFromCart offline guest_with_A ''A'') = \<lparr>items = [], total_c = 0\<rparr> \<and>
   find (\<lambda>item. product_id item = ''B'') (items (cart guest_with_A)) = None \<and>
   total_c (cart guest_with_A) = spec_total (items (cart guest_with_A)) \<and>
   cart (removeFromCart offline guest_with_A ''B'') = cart guest_with_A \<and>
   removeFromCart offline (removeFromCart offline guest_with_A ''A'') ''A''
     = removeFromCart offline guest_with_A ''A'' \<and>
   authenticated member_with_B \<and>
   delete_cart_remove offline (bearer member_with_B) ''B'' = Inl (RequestFailed 0) \<and>
   removeFromCart offline member_with_B ''B'' = member_with_B"
  using remove_idempotent [where s = guest_with_A and srv = offline and pid = "''A''"
      and data = empty_cart and e = "RequestFailed 0"]
    remove_idempotent [where s = guest_with_A and srv = offline and pid = "''B''"
      and data = empty_cart and e = "RequestFailed 0"]
    remove_idempotent [where s = member_with_B and srv = offline and pid = "''B''"
      and data = empty_cart and e = "RequestFailed 0"]
  by (simp add: guest_with_A_eq member_with_B_eq authenticated_def bearer_def
      removeFromCart_def saveGuestCart_def offline_def spec_total_def engine_defs)

subsection \<open>Signing out\<close>

text \<open>
  Claim C10 fails as stated: after \<open>logout\<close> the effect loads the cart in guest mode.
  The member whose browser still stores the guest cart with two of A, and whose cart
  holds one of B, signs out: the active cart is then the stored guest cart.
\<close>

theorem logout_counterexample:
  "authenticated member_with_B \<and>
   cart member_with_B = \<lparr>items = [line_B 1], total_c = 35\<rparr> \<and>
   guestCart member_with_B = Some \<lparr>items = [line_A 2], total_c = 50\<rparr> \<and>
   cart (CartProvider_effect offline member_with_B (logout member_with_B)) =
     \<lparr>items = [line_A 2], total_c = 50\<rparr>"
  by (simp add: member_with_B_eq logout_def CartProvider_effect_def loadCart_def
      authenticated_def)

text \<open>
  Claim C10, amended. \<open>logout\<close> and the reload that follows it write nothing to the
  \<open>guestCart\<close> entry of the local store, so the authenticated cart is not persisted
  there; but a guest cart that is saved in the local store becomes the active cart
  once the signed-in user has logged out.
\<close>

theorem logout_reloads_guest_cart:
  "guestCart (logout s) = guestCart s \<and>
   guestCart (CartProvider_effect srv s (logout s)) = guestCart s \<and>
   (authenticated s \<and> guestCart s = Some saved \<longrightarrow>
      cart (CartProvider_effect srv s (logout s)) = saved)"
  by (auto simp: logout_def CartProvider_effect_def loadCart_def authenticated_def
      split: sum.splits option.splits)

theorem logout_reloads_guest_cart_witness:
  "authenticated member_with_B \<and>
   guestCart member_with_B = Some \<lparr>items = [line_A 2], total_c = 50\<rparr> \<and>
   cart (CartProvider_effect (shop empty_cart (Inl (RequestFailed 400))) member_with_B
      (logout member_with_B)) = \<lparr>items = [line_A 2], total_c = 50\<rparr> \<and>
   guestCart (CartProvider_effect (shop empty_cart (Inl (RequestFailed 400))) member_with_B
      (logout member_with_B)) = Some \<lparr>items = [line_A 2], total_c = 50\<rparr>"
  using logout_reloads_guest_cart [of member_with_B
      "shop empty_cart (Inl (RequestFailed 400))" "\<lparr>items = [line_A 2], total_c = 50\<rparr>"]
  by (simp add: member_with_B_eq authenticated_def)

end
